theory Spec2Isabelle
  imports Complex_Main
begin

section \<open>The storefront backend of \<open>src/index.js\<close>\<close>

text \<open>
  The program is an Express server over two MongoDB collections, \<open>products\<close> and
  \<open>users\<close>. Every handler reads a collection, decides, and writes at most once, so a
  handler is a function from the collection (and the request) to the new collection and
  the response. A collection is the list of its documents in the order \<open>find({})\<close>
  returns them, which is the order of insertion. Requests are handled one at a time.
  The store is taken to be reachable: the \<open>catch\<close> blocks of the handlers are modelled
  for the failures the model can produce (a rejected \<open>save\<close>, a failed decryption).
\<close>

subsection \<open>Carts, tokens, stored passwords and responses\<close>

text \<open>
  A cart is the \<open>cartData\<close> object of a user document, a plain object: its own
  properties, named by strings, over the prototype of every plain object. A number used
  as a property name, as in \<open>cart[i]\<close>, names the property whose name is its decimal
  numeral; \<open>itemId\<close> is the property name the request's value converts to.

  The values of own properties are the values the handlers can store. A count is a
  number that the handlers set to 0 or 1 and move by 1, so it is an integer, with no
  bound. \<open>NaN\<close> is what subtracting 1 from a value that is no number gives.
  \<open>Native_text f n\<close> is the string \<open>function f() { [native code] }\<close> followed by \<open>n\<close>
  characters \<open>1\<close>, what adding 1 to a native function \<open>f\<close>, and then to the result,
  gives; \<open>Object_text n\<close> is the string \<open>[object Object]\<close> followed by \<open>n\<close> characters
  \<open>1\<close>. Neither string reads as a number.
\<close>

datatype js_value = Number int | NaN | Native_text string nat | Object_text nat

type_synonym cart = "string \<rightharpoonup> js_value"

text \<open>
  What reading \<open>cartData[itemId]\<close> gives: the own property when there is one, otherwise
  what \<open>Object.prototype\<close> has under that name, otherwise \<open>undefined\<close>.
  \<open>Object.prototype\<close> has eleven methods and the accessor \<open>__proto__\<close>, whose getter
  gives \<open>Object.prototype\<close> itself.
\<close>

datatype js_read = Undefined | Own js_value | Native_function string | Object_prototype

definition inherited :: "string \<Rightarrow> js_read" where
  "inherited k =
     (if k = ''__proto__'' then Object_prototype
      else if k = ''constructor'' then Native_function ''Object''
      else if k \<in> set [''toString'', ''valueOf'', ''toLocaleString'', ''hasOwnProperty'',
                         ''isPrototypeOf'', ''propertyIsEnumerable'', ''__defineGetter__'',
                         ''__defineSetter__'', ''__lookupGetter__'', ''__lookupSetter__'']
      then Native_function k
      else Undefined)"

definition get_property :: "cart \<Rightarrow> string \<Rightarrow> js_read" where
  "get_property c k = (case c k of Some v \<Rightarrow> Own v | None \<Rightarrow> inherited k)"

text \<open>
  The assignment \<open>cartData[itemId] = v\<close> writes the own property, except that under the
  name \<open>__proto__\<close>, when the object has no own property of that name, it calls the
  setter of the accessor, which ignores every value that is neither an object nor
  \<open>null\<close>.
\<close>

definition set_property :: "cart \<Rightarrow> string \<Rightarrow> js_value \<Rightarrow> cart" where
  "set_property c k v = (if k = ''__proto__'' \<and> c k = None then c else c(k \<mapsto> v))"

text \<open>
  The operators the handlers apply to what they read: \<open>!x\<close> is the negation of
  \<open>to_boolean\<close>, \<open>x + 1\<close> is \<open>plus_one\<close> (a sum of numbers, otherwise the text of \<open>x\<close>
  followed by \<open>1\<close>), \<open>x <= 0\<close> is \<open>le_zero\<close> and \<open>x - 1\<close> is \<open>minus_one\<close> (both
  take \<open>x\<close> as a number, and what is no number as \<open>NaN\<close>, which compares false).
\<close>

fun to_boolean :: "js_read \<Rightarrow> bool" where
  "to_boolean Undefined = False"
| "to_boolean (Own (Number n)) = (n \<noteq> 0)"
| "to_boolean (Own NaN) = False"
| "to_boolean (Own (Native_text f n)) = True"
| "to_boolean (Own (Object_text n)) = True"
| "to_boolean (Native_function f) = True"
| "to_boolean Object_prototype = True"

fun plus_one :: "js_read \<Rightarrow> js_value" where
  "plus_one Undefined = NaN"
| "plus_one (Own (Number n)) = Number (n + 1)"
| "plus_one (Own NaN) = NaN"
| "plus_one (Own (Native_text f n)) = Native_text f (n + 1)"
| "plus_one (Own (Object_text n)) = Object_text (n + 1)"
| "plus_one (Native_function f) = Native_text f 1"
| "plus_one Object_prototype = Object_text 1"

fun le_zero :: "js_read \<Rightarrow> bool" where
  "le_zero (Own (Number n)) = (n \<le> 0)"
| "le_zero x = False"

fun minus_one :: "js_read \<Rightarrow> js_value" where
  "minus_one (Own (Number n)) = Number (n - 1)"
| "minus_one x = NaN"

text \<open>
  The Session Token Issuer/Verifier is the \<open>jsonwebtoken\<close> package, whose code is not
  under \<open>src/\<close>; the token is kept symbolic: it records the payload, the time it was
  issued, the time it expires and the key it was signed with. Times are in seconds.
\<close>

record payload =
  userId :: nat
  iat :: nat
  exp :: nat

datatype token = JWT payload string | Malformed string

datatype jwt_error = JsonWebTokenError | TokenExpiredError

text \<open>
  Modelled from the spec: \<open>jwt.sign\<close> of \<open>jsonwebtoken\<close>, which is not under \<open>src/\<close>.
  Section 4.2: \<open>issue(accountId) -> token\<close> produces an opaque signed token binding the
  account identifier, expiring a fixed time after issuance. \<open>expiresIn\<close> is in seconds
  (\<open>'1h'\<close> is 3600).
\<close>

definition jwt_sign :: "nat \<Rightarrow> string \<Rightarrow> nat \<Rightarrow> nat \<Rightarrow> token" where
  "jwt_sign uid secretOrPrivateKey expiresIn now =
     JWT \<lparr>userId = uid, iat = now, exp = now + expiresIn\<rparr> secretOrPrivateKey"

text \<open>
  Modelled from the spec: \<open>jwt.verify\<close> of \<open>jsonwebtoken\<close>, which is not under \<open>src/\<close>.
  Section 4.2: verification fails when the signature does not validate or the token is
  malformed, and once past the expiry boundary; otherwise it gives the payload. At the
  expiry time itself the token counts as expired.
\<close>

definition jwt_verify :: "token \<Rightarrow> string \<Rightarrow> nat \<Rightarrow> jwt_error + payload" where
  "jwt_verify tok secretOrPublicKey now =
     (case tok of
        Malformed s \<Rightarrow> Inl JsonWebTokenError
      | JWT data signedWith \<Rightarrow>
          if signedWith \<noteq> secretOrPublicKey then Inl JsonWebTokenError
          else if exp data \<le> now then Inl TokenExpiredError
          else Inr data)"

text \<open>
  The Credential Codec is \<open>CryptoJS.AES\<close> of the \<open>crypto-js\<close> package, whose code is not
  under \<open>src/\<close>; the stored string is kept symbolic: it records the plaintext, the
  passphrase and the salt it was made from.
\<close>

datatype ciphertext = AES_Cipher string string nat

datatype crypto_error = MalformedUtf8

text \<open>
  Modelled from the spec: \<open>CryptoJS.AES.encrypt\<close>, which is not under \<open>src/\<close>. Section
  4.1: \<open>obfuscate(plaintext, key) -> stored\<close>, a symmetric reversible transform (not a
  one-way hash) using a single shared key.
\<close>

definition AES_encrypt :: "string \<Rightarrow> string \<Rightarrow> nat \<Rightarrow> ciphertext" where
  "AES_encrypt message passphrase salt = AES_Cipher message passphrase salt"

text \<open>
  Modelled from the spec: \<open>CryptoJS.AES.decrypt\<close> with \<open>toString(CryptoJS.enc.Utf8)\<close>,
  which is not under \<open>src/\<close>. Section 4.1: \<open>recover(stored, key) -> plaintext\<close>, the
  inverse under the same key. Only the passphrase a stored string was made with opens
  it; under another passphrase the recovery is an exception (\<open>Malformed UTF-8 data\<close>).
\<close>

definition AES_decrypt :: "ciphertext \<Rightarrow> string \<Rightarrow> crypto_error + string" where
  "AES_decrypt stored passphrase =
     (case stored of AES_Cipher message madeWith salt \<Rightarrow>
        if madeWith = passphrase then Inr message else Inl MalformedUtf8)"

datatype body =
    Success_name "string option"
  | Success
  | Failure string
  | Success_token token cart
  | Errors string
  | Text string

datatype response = Response nat body

subsection \<open>Configuration and what a request reads from its surroundings\<close>

text \<open>
  Lines 26 and 27 load two secrets from the environment into the globals \<open>jwtSecret\<close>
  and \<open>encryptionSecret\<close>; a variable the environment does not set is \<open>undefined\<close>.
  The globals are in scope of the handlers that sign, verify, encrypt and decrypt.
\<close>

record config =
  jwtSecret :: "string option"
  encryptionSecret :: "string option"

text \<open>
  What a request takes from outside the program: the clock (\<open>Date.now\<close>, in seconds), the
  salt the cipher draws, and the \<open>_id\<close> the driver gives a new document.
\<close>

record ambient =
  clock :: nat
  salt :: nat
  new_id :: nat

subsection \<open>The catalog (lines 60 to 152)\<close>

record product =
  id_p :: int
  name_p :: string
  image_p :: string
  category :: string
  new_price :: real
  old_price :: real
  date_p :: nat
  available :: bool

text \<open>
  The body of \<open>/addproduct\<close>: a field the request leaves out is \<open>undefined\<close>. The schema
  requires all five; a required string must also be non-empty. A document that fails
  validation is not saved and \<open>save\<close> throws.
\<close>

record product_body =
  body_name :: "string option"
  body_image :: "string option"
  body_category :: "string option"
  body_new_price :: "real option"
  body_old_price :: "real option"

datatype mongoose_error = ValidationError | DuplicateKey

fun message :: "mongoose_error \<Rightarrow> string" where
  "message ValidationError = ''Product validation failed''"
| "message DuplicateKey = ''E11000 duplicate key error''"

definition required_string :: "string option \<Rightarrow> bool" where
  "required_string v = (case v of None \<Rightarrow> False | Some s \<Rightarrow> s \<noteq> [])"

definition save_product ::
  "product list \<Rightarrow> int \<Rightarrow> product_body \<Rightarrow> nat \<Rightarrow> mongoose_error + product list" where
  "save_product products i b now =
     (if required_string (body_name b) \<and> required_string (body_image b)
         \<and> required_string (body_category b)
         \<and> body_new_price b \<noteq> None \<and> body_old_price b \<noteq> None
      then Inr (products @
             [\<lparr>id_p = i, name_p = the (body_name b), image_p = the (body_image b),
               category = the (body_category b), new_price = the (body_new_price b),
               old_price = the (body_old_price b), date_p = now, available = True\<rparr>])
      else Inl ValidationError)"

text \<open>Line 113: the id of the new product.\<close>

definition next_id :: "product list \<Rightarrow> int" where
  "next_id product = (if length product > 0 then id_p (last product) + 1 else 1)"

definition addproduct :: "ambient \<Rightarrow> product list \<Rightarrow> product_body \<Rightarrow> product list \<times> response" where
  "addproduct env products b =
     (let product = products;
          i = next_id product
      in (case save_product products i b (clock env) of
            Inr products' \<Rightarrow> (products', Response 200 (Success_name (body_name b)))
          | Inl error \<Rightarrow> (products, Response 500 (Failure (message error)))))"

text \<open>\<open>findOneAndDelete({ id: productId })\<close> removes the first product with that id, if any.\<close>

fun findOneAndDelete :: "int \<Rightarrow> product list \<Rightarrow> product list" where
  "findOneAndDelete productId [] = []"
| "findOneAndDelete productId (p # ps) =
     (if id_p p = productId then ps else p # findOneAndDelete productId ps)"

definition removeproduct :: "product list \<Rightarrow> int \<Rightarrow> product list \<times> response" where
  "removeproduct products productId =
     (findOneAndDelete productId products, Response 200 Success)"

subsection \<open>Accounts (lines 154 to 252)\<close>

record user =
  id_u :: nat
  name_u :: string
  email :: string
  password :: ciphertext
  cartData :: cart
  date_u :: nat

definition findOne_email :: "user list \<Rightarrow> string \<Rightarrow> user option" where
  "findOne_email users e = find (\<lambda>u. email u = e) users"

definition findOne_id :: "user list \<Rightarrow> nat \<Rightarrow> user option" where
  "findOne_id users i = find (\<lambda>u. id_u u = i) users"

text \<open>
  \<open>save\<close> of a new user: the collection has a unique index on \<open>_id\<close> and, by the schema
  (\<open>unique: true\<close>), on \<open>email\<close>; a document that repeats either is rejected.
\<close>

definition save_user :: "user list \<Rightarrow> user \<Rightarrow> mongoose_error + user list" where
  "save_user users newUser =
     (if list_ex (\<lambda>u. id_u u = id_u newUser \<or> email u = email newUser) users
      then Inl DuplicateKey else Inr (users @ [newUser]))"

text \<open>The decimal numeral of a number, the name of the property \<open>cart[i]\<close>.\<close>

definition digit_char :: "nat \<Rightarrow> char" where
  "digit_char d = ''0123456789'' ! d"

function string_of_nat :: "nat \<Rightarrow> string" where
  "string_of_nat n =
     (if n < 10 then [digit_char n] else string_of_nat (n div 10) @ [digit_char (n mod 10)])"
  by pat_completeness auto
termination
  by (relation "measure (\<lambda>n. n)") auto

declare string_of_nat.simps [simp del]

text \<open>Lines 190 to 192: \<open>for (let i = 0; i < 100; i++) { cart[i] = 0; }\<close>\<close>

function seed_cart :: "nat \<Rightarrow> cart \<Rightarrow> cart" where
  "seed_cart i cart =
     (if i < 100 then seed_cart (i + 1) (set_property cart (string_of_nat i) (Number 0))
      else cart)"
  by pat_completeness auto
termination
  by (relation "measure (\<lambda>(i, cart). 100 - i)") auto

declare seed_cart.simps [simp del]

definition signup ::
  "config \<Rightarrow> ambient \<Rightarrow> user list \<Rightarrow> string \<Rightarrow> string \<Rightarrow> string \<Rightarrow> user list \<times> response" where
  "signup cfg env users req_name req_email req_password =
     (case findOne_email users req_email of
        Some existingUser \<Rightarrow> (users, Response 400 (Failure ''Email is already registered!''))
      | None \<Rightarrow>
          let cart = seed_cart 0 Map.empty;
              encryptedPassword = AES_encrypt req_password ''Secret key'' (salt env);
              newUser = \<lparr>id_u = new_id env, name_u = req_name, email = req_email,
                         password = encryptedPassword, cartData = cart,
                         date_u = clock env\<rparr>
          in (case save_user users newUser of
                Inl error \<Rightarrow> (users, Response 500 (Failure ''Internal server error''))
              | Inr users' \<Rightarrow>
                  (let token = jwt_sign (id_u newUser) ''secret'' 3600 (clock env)
                   in (users', Response 201 (Success_token token (cartData newUser))))))"

definition login :: "config \<Rightarrow> ambient \<Rightarrow> user list \<Rightarrow> string \<Rightarrow> string \<Rightarrow> response" where
  "login cfg env users req_email req_password =
     (case findOne_email users req_email of
        None \<Rightarrow> Response 404 (Failure ''User not found'')
      | Some u \<Rightarrow>
          (case AES_decrypt (password u) ''Secret key'' of
             Inl error \<Rightarrow> Response 500 (Failure ''Internal server error'')
           | Inr originalPassword \<Rightarrow>
               if originalPassword \<noteq> req_password
               then Response 401 (Failure ''Incorrect password'')
               else (let token = jwt_sign (id_u u) ''secret'' 3600 (clock env)
                     in Response 200 (Success_token token (cartData u)))))"

subsection \<open>The token check and the cart (lines 254 to 336)\<close>

datatype auth = Next nat | Rejected response

text \<open>\<open>!token\<close> holds of a missing header and of the empty string.\<close>

definition fetchUser :: "config \<Rightarrow> ambient \<Rightarrow> token option \<Rightarrow> auth" where
  "fetchUser cfg env header =
     (case header of
        None \<Rightarrow> Rejected (Response 401 (Errors ''Please authenticate using a valid token''))
      | Some tok \<Rightarrow>
          if tok = Malformed []
          then Rejected (Response 401 (Errors ''Please authenticate using a valid token''))
          else (case jwt_verify tok ''secret'' (clock env) of
                  Inr data \<Rightarrow> Next (userId data)
                | Inl error \<Rightarrow>
                    Rejected (Response 401 (Errors ''Please authenticate using a valid token''))))"

text \<open>
  \<open>findOneAndUpdate({ _id: req.user }, { cartData: ... })\<close> replaces the cart of the first
  user with that \<open>_id\<close>.
\<close>

fun findOneAndUpdate :: "nat \<Rightarrow> cart \<Rightarrow> user list \<Rightarrow> user list" where
  "findOneAndUpdate i c [] = []"
| "findOneAndUpdate i c (u # us) =
     (if id_u u = i then u\<lparr>cartData := c\<rparr> # us else u # findOneAndUpdate i c us)"

text \<open>
  The handlers after \<open>fetchUser\<close> has set \<open>req.user\<close>. Line 285 tests
  \<open>!userData.cartData[itemId]\<close>, lines 287 and 290 assign 1 or add 1 in place; line 320
  tests \<open>!userData.cartData[itemId] || userData.cartData[itemId] <= 0\<close>, line 325
  subtracts 1 in place. Both then write the whole cart back.
\<close>

definition addtocart_handler :: "user list \<Rightarrow> nat \<Rightarrow> string \<Rightarrow> user list \<times> response" where
  "addtocart_handler users req_user itemId =
     (case findOne_id users req_user of
        None \<Rightarrow> (users, Response 404 (Text ''User not found''))
      | Some userData \<Rightarrow>
          let cart =
                (if \<not> to_boolean (get_property (cartData userData) itemId)
                 then set_property (cartData userData) itemId (Number 1)
                 else set_property (cartData userData) itemId
                        (plus_one (get_property (cartData userData) itemId)))
          in (findOneAndUpdate req_user cart users, Response 200 (Text ''Item added to the cart'')))"

definition removefromcart_handler :: "user list \<Rightarrow> nat \<Rightarrow> string \<Rightarrow> user list \<times> response" where
  "removefromcart_handler users req_user itemId =
     (case findOne_id users req_user of
        None \<Rightarrow> (users, Response 404 (Text ''User not found''))
      | Some userData \<Rightarrow>
          if \<not> to_boolean (get_property (cartData userData) itemId)
             \<or> le_zero (get_property (cartData userData) itemId)
          then (users, Response 400 (Text ''Item not found in cart''))
          else (findOneAndUpdate req_user
                  (set_property (cartData userData) itemId
                     (minus_one (get_property (cartData userData) itemId)))
                  users,
                Response 200 (Text ''Removed one item'')))"

definition addtocart ::
  "config \<Rightarrow> ambient \<Rightarrow> user list \<Rightarrow> token option \<Rightarrow> string \<Rightarrow> user list \<times> response" where
  "addtocart cfg env users header itemId =
     (case fetchUser cfg env header of
        Rejected r \<Rightarrow> (users, r)
      | Next req_user \<Rightarrow> addtocart_handler users req_user itemId)"

definition removefromcart ::
  "config \<Rightarrow> ambient \<Rightarrow> user list \<Rightarrow> token option \<Rightarrow> string \<Rightarrow> user list \<times> response" where
  "removefromcart cfg env users header itemId =
     (case fetchUser cfg env header of
        Rejected r \<Rightarrow> (users, r)
      | Next req_user \<Rightarrow> removefromcart_handler users req_user itemId)"

subsection \<open>Sequences of catalog requests\<close>

text \<open>
  The catalog a sequence of \<open>/addproduct\<close> and \<open>/removeproduct\<close> requests leaves, starting
  from the empty collection.
\<close>

datatype catalog_request = Addproduct ambient product_body | Removeproduct int

fun serve :: "product list \<Rightarrow> catalog_request \<Rightarrow> product list" where
  "serve products (Addproduct env b) = fst (addproduct env products b)"
| "serve products (Removeproduct productId) = fst (removeproduct products productId)"

definition catalog_after :: "catalog_request list \<Rightarrow> product list" where
  "catalog_after requests = foldl serve [] requests"

subsection \<open>Concrete inputs\<close>

definition shop_config :: config where
  "shop_config =
     \<lparr>jwtSecret = Some ''jwt-from-env'', encryptionSecret = Some ''enc-from-env''\<rparr>"

definition at_time :: "nat \<Rightarrow> ambient" where
  "at_time t = \<lparr>clock = t, salt = 0, new_id = 1\<rparr>"

definition alice :: user where
  "alice = \<lparr>id_u = 7, name_u = ''Alice'', email = ''alice@example.org'',
            password = AES_encrypt ''pw'' ''Secret key'' 0,
            cartData = [''5'' \<mapsto> Number 2, ''6'' \<mapsto> Number 0], date_u = 0\<rparr>"

definition item :: "int \<Rightarrow> product" where
  "item i = \<lparr>id_p = i, name_p = ''Shirt'',
             image_p = ''http://localhost:5000/images/shirt.png'',
             category = ''men'', new_price = 50, old_price = 80, date_p = 0,
             available = True\<rparr>"

definition item_body :: product_body where
  "item_body = \<lparr>body_name = Some ''Shirt'',
                body_image = Some ''http://localhost:5000/images/shirt.png'',
                body_category = Some ''men'', body_new_price = Some 50,
                body_old_price = Some 80\<rparr>"

section \<open>The cart mutators\<close>

lemma findOne_id_update:
  "findOne_id users i = Some u \<Longrightarrow>
   findOne_id (findOneAndUpdate i c users) i = Some (u\<lparr>cartData := c\<rparr>)"
  unfolding findOne_id_def by (induction users) (auto split: if_splits)

lemma set_property_other: "k \<noteq> itemId \<Longrightarrow> set_property c itemId v k = c k"
  by (simp add: set_property_def)

lemma addtocart_found:
  assumes "fetchUser cfg env header = Next a" and "findOne_id users a = Some u"
  shows "addtocart cfg env users header itemId =
           (findOneAndUpdate a
              (set_property (cartData u) itemId
                 (if to_boolean (get_property (cartData u) itemId)
                  then plus_one (get_property (cartData u) itemId) else Number 1))
              users,
            Response 200 (Text ''Item added to the cart''))"
  using assms by (simp add: addtocart_def addtocart_handler_def)

lemma removefromcart_found:
  assumes "fetchUser cfg env header = Next a" and "findOne_id users a = Some u"
  shows "removefromcart cfg env users header itemId =
           (if \<not> to_boolean (get_property (cartData u) itemId)
               \<or> le_zero (get_property (cartData u) itemId)
            then (users, Response 400 (Text ''Item not found in cart''))
            else (findOneAndUpdate a
                    (set_property (cartData u) itemId
                       (minus_one (get_property (cartData u) itemId)))
                    users,
                  Response 200 (Text ''Removed one item'')))"
  using assms by (simp add: removefromcart_def removefromcart_handler_def)

lemma alice_authenticated:
  "fetchUser cfg (at_time 10) (Some (jwt_sign 7 ''secret'' 3600 0)) = Next 7"
  by (simp add: fetchUser_def jwt_sign_def jwt_verify_def at_time_def)

lemma alice_found: "findOne_id [alice] 7 = Some alice"
  by (simp add: findOne_id_def alice_def)

text \<open>
  Where the entry is a count, or is absent under a name that \<open>Object.prototype\<close> does
  not have, the handlers count: with \<open>n\<close> the count (0 for the absent entry), the
  increment persists \<open>n + 1\<close>, and the decrement refuses when \<open>n \<le> 0\<close> and persists
  \<open>n - 1\<close> otherwise.
\<close>

lemma addtocart_count:
  assumes "fetchUser cfg env header = Next a" and "findOne_id users a = Some u"
    and "cartData u itemId = Some (Number n)
         \<or> (cartData u itemId = None \<and> inherited itemId = Undefined \<and> n = 0)"
  shows "addtocart cfg env users header itemId =
           (findOneAndUpdate a ((cartData u)(itemId \<mapsto> Number (n + 1))) users,
            Response 200 (Text ''Item added to the cart''))"
proof -
  from assms(3) have "itemId = ''__proto__'' \<longrightarrow> cartData u itemId \<noteq> None"
    by (auto simp: inherited_def)
  with assms(3) show ?thesis
    unfolding addtocart_found [OF assms(1,2)]
    by (auto simp: get_property_def set_property_def)
qed

lemma removefromcart_count:
  assumes "fetchUser cfg env header = Next a" and "findOne_id users a = Some u"
    and "cartData u itemId = Some (Number n)
         \<or> (cartData u itemId = None \<and> inherited itemId = Undefined \<and> n = 0)"
  shows "removefromcart cfg env users header itemId =
           (if n \<le> 0 then (users, Response 400 (Text ''Item not found in cart''))
            else (findOneAndUpdate a ((cartData u)(itemId \<mapsto> Number (n - 1))) users,
                  Response 200 (Text ''Removed one item'')))"
proof -
  from assms(3) have "itemId = ''__proto__'' \<longrightarrow> cartData u itemId \<noteq> None"
    by (auto simp: inherited_def)
  with assms(3) show ?thesis
    unfolding removefromcart_found [OF assms(1,2)]
    by (auto simp: get_property_def set_property_def)
qed


text \<open>
  C5. The claim: for every account and \<open>itemId\<close>, the decrement fails with
  \<open>ItemNotInCart\<close> (status 400, \<open>Item not found in cart\<close>) exactly when \<open>cart[itemId]\<close> is
  absent or at most 0, and then leaves the cart as it was; otherwise it subtracts 1 and
  persists the result. The comment of line 318 says the same (\<open>Check if itemId exists
  in the cartData object and it's greater than 0\<close>). The test of line 320 reads the
  property through the prototype: in a cart with no entry \<open>toString\<close>, the decrement of
  \<open>toString\<close> finds the inherited function, which is neither false nor at most 0,
  subtracts 1 from it, persists \<open>NaN\<close> and answers 200, where the decrement of the
  absent entry \<open>8\<close> is refused and leaves the store as it was.
\<close>

theorem removefromcart_inherited_name:
  "cartData alice ''toString'' = None
   \<and> removefromcart shop_config (at_time 10) [alice] (Some (jwt_sign 7 ''secret'' 3600 0))
       ''toString'' =
       ([alice\<lparr>cartData := (cartData alice)(''toString'' \<mapsto> NaN)\<rparr>],
        Response 200 (Text ''Removed one item''))
   \<and> cartData alice ''8'' = None
   \<and> removefromcart shop_config (at_time 10) [alice] (Some (jwt_sign 7 ''secret'' 3600 0)) ''8'' =
       ([alice], Response 400 (Text ''Item not found in cart''))"
proof -
  have own: "cartData alice ''toString'' = None" "cartData alice ''8'' = None"
    and i: "id_u alice = 7"
    by (simp_all add: alice_def)
  then have "get_property (cartData alice) ''toString'' = Native_function ''toString''"
    and "get_property (cartData alice) ''8'' = Undefined"
    by (simp_all add: get_property_def inherited_def)
  then show ?thesis
    unfolding removefromcart_found [OF alice_authenticated alice_found]
    using own i by (simp add: set_property_def)
qed

text \<open>
  C9. Both cart mutators preserve every cart entry other than the one \<open>itemId\<close> names: for
  every account, every \<open>itemId\<close> and every other key \<open>k\<close>, the persisted count \<open>cart[k]\<close>
  after the increment, and after the decrement (whether it succeeds or is refused), is
  the count before.
\<close>

theorem cart_mutators_preserve_other_entries:
  assumes "fetchUser cfg env header = Next a" and "findOne_id users a = Some u"
    and "k \<noteq> itemId"
  shows "(\<exists>u'. findOne_id (fst (addtocart cfg env users header itemId)) a = Some u'
               \<and> cartData u' k = cartData u k)
       \<and> (\<exists>u'. findOne_id (fst (removefromcart cfg env users header itemId)) a = Some u'
               \<and> cartData u' k = cartData u k)"
  using assms
  by (auto simp: addtocart_found removefromcart_found findOne_id_update set_property_other)

theorem cart_mutators_preserve_other_entries_witness:
  "map_option (\<lambda>u. cartData u ''6'')
     (findOne_id (fst (addtocart shop_config (at_time 10) [alice]
        (Some (jwt_sign 7 ''secret'' 3600 0)) ''5'')) 7) = Some (Some (Number 0))
   \<and> map_option (\<lambda>u. cartData u ''6'')
     (findOne_id (fst (removefromcart shop_config (at_time 10) [alice]
        (Some (jwt_sign 7 ''secret'' 3600 0)) ''5'')) 7) = Some (Some (Number 0))"
proof -
  have ne: "''6'' \<noteq> ''5''" by simp
  have c6: "cartData alice ''6'' = Some (Number 0)" by (simp add: alice_def)
  from cart_mutators_preserve_other_entries
    [OF alice_authenticated alice_found ne, of shop_config]
  show ?thesis
    unfolding c6 by auto
qed

section \<open>Accounts, stored passwords and tokens\<close>

lemma find_snoc:
  "find P (xs @ [y]) =
     (case find P xs of Some x \<Rightarrow> Some x | None \<Rightarrow> if P y then Some y else None)"
  by (induction xs) auto

lemma findOne_email_Some_iff:
  "(\<exists>u. findOne_email users e = Some u) \<longleftrightarrow> e \<in> email ` set users"
  unfolding findOne_email_def
  by (cases "find (\<lambda>u. email u = e) users") (auto simp: find_None_iff find_Some_iff)

lemma signup_created:
  assumes "signup cfg env users n e p = (users', Response 201 b)"
  shows "findOne_email users e = None"
    and "users' = users @ [\<lparr>id_u = new_id env, name_u = n, email = e,
                         password = AES_encrypt p ''Secret key'' (salt env),
                         cartData = seed_cart 0 Map.empty, date_u = clock env\<rparr>]"
    and "b = Success_token (jwt_sign (new_id env) ''secret'' 3600 (clock env))
               (seed_cart 0 Map.empty)"
  using assms
  by (auto simp: signup_def save_user_def Let_def split: option.splits if_splits)

lemma signup_created_found:
  assumes "signup cfg env users n e p = (users', Response 201 b)"
  shows "findOne_email users' e =
           Some \<lparr>id_u = new_id env, name_u = n, email = e,
                 password = AES_encrypt p ''Secret key'' (salt env),
                 cartData = seed_cart 0 Map.empty, date_u = clock env\<rparr>"
proof -
  have "find (\<lambda>u. email u = e) users = None"
    using signup_created(1) [OF assms] by (simp add: findOne_email_def)
  then show ?thesis
    unfolding signup_created(2) [OF assms] findOne_email_def find_snoc by simp
qed

lemma login_issues:
  assumes "login cfg env users e p = Response 200 b"
  shows "\<exists>u. findOne_email users e = Some u
           \<and> AES_decrypt (password u) ''Secret key'' = Inr p
           \<and> b = Success_token (jwt_sign (id_u u) ''secret'' 3600 (clock env)) (cartData u)"
  using assms by (auto simp: login_def Let_def split: option.splits sum.splits if_splits)

lemma signup_ignores_config:
  "signup cfg env users n e p = signup cfg' env users n e p"
  by (simp add: signup_def)

lemma login_ignores_config:
  "login cfg env users e p = login cfg' env users e p"
  by (simp add: login_def)

lemma fetchUser_ignores_config:
  "fetchUser cfg env header = fetchUser cfg' env header"
  by (simp add: fetchUser_def)

lemma first_signup:
  "signup shop_config (at_time 0) [] ''Ann'' ''ann@example.org'' ''pw'' =
     ([\<lparr>id_u = 1, name_u = ''Ann'', email = ''ann@example.org'',
        password = AES_Cipher ''pw'' ''Secret key'' 0,
        cartData = seed_cart 0 Map.empty, date_u = 0\<rparr>],
      Response 201 (Success_token (JWT \<lparr>userId = 1, iat = 0, exp = 3600\<rparr> ''secret'')
                      (seed_cart 0 Map.empty)))"
  by (simp add: signup_def findOne_email_def save_user_def at_time_def AES_encrypt_def
      jwt_sign_def Let_def)

text \<open>
  C1. For every plaintext password \<open>p\<close> and key, recovering what obfuscation under that
  key produced gives \<open>p\<close> back; and as the handlers use the codec, the password string
  that a successful signup stores decrypts, under the key the login handler passes, to
  exactly the plaintext that was signed up with.
\<close>

theorem credential_round_trip:
  "AES_decrypt (AES_encrypt p key s) key = Inr p
   \<and> (signup cfg env users n e p = (users', Response 201 b)
      \<longrightarrow> (\<exists>u. findOne_email users' e = Some u
              \<and> AES_decrypt (password u) ''Secret key'' = Inr p))"
proof
  show "AES_decrypt (AES_encrypt p key s) key = Inr p"
    by (simp add: AES_decrypt_def AES_encrypt_def)
next
  show "signup cfg env users n e p = (users', Response 201 b)
      \<longrightarrow> (\<exists>u. findOne_email users' e = Some u
              \<and> AES_decrypt (password u) ''Secret key'' = Inr p)"
  proof
    assume "signup cfg env users n e p = (users', Response 201 b)"
    then have "findOne_email users' e =
           Some \<lparr>id_u = new_id env, name_u = n, email = e,
                 password = AES_encrypt p ''Secret key'' (salt env),
                 cartData = seed_cart 0 Map.empty, date_u = clock env\<rparr>"
      by (rule signup_created_found)
    then show "\<exists>u. findOne_email users' e = Some u
              \<and> AES_decrypt (password u) ''Secret key'' = Inr p"
      by (simp add: AES_decrypt_def AES_encrypt_def)
  qed
qed

theorem credential_round_trip_witness:
  "AES_decrypt (AES_encrypt ''p@ss w0rd'' ''k'' 3) ''k'' = Inr ''p@ss w0rd''
   \<and> map_option (\<lambda>u. AES_decrypt (password u) ''Secret key'')
       (findOne_email
          (fst (signup shop_config (at_time 0) [] ''Ann'' ''ann@example.org'' ''pw''))
          ''ann@example.org'') = Some (Inr ''pw'')"
proof -
  have a: "AES_decrypt (AES_encrypt ''p@ss w0rd'' ''k'' 3) ''k'' = Inr ''p@ss w0rd''"
    using credential_round_trip [where p = "''p@ss w0rd''" and key = "''k''" and s = 3]
    by blast
  from credential_round_trip [where p = "''pw''" and cfg = shop_config
      and env = "at_time 0" and users = "[]" and n = "''Ann''" and e = "''ann@example.org''"]
    first_signup
  have "\<exists>u. findOne_email
          (fst (signup shop_config (at_time 0) [] ''Ann'' ''ann@example.org'' ''pw''))
          ''ann@example.org'' = Some u
        \<and> AES_decrypt (password u) ''Secret key'' = Inr ''pw''"
    by simp
  with a show ?thesis by auto
qed

text \<open>
  C2. For every account identifier, the token the signup and login handlers issue for
  it (signed at time \<open>t\<close>, in seconds, to expire after one hour) passes the token check
  with that identifier while less than an hour has elapsed, and once more than an hour
  has elapsed the check refuses it, with the very response it gives a token that is
  not valid.
\<close>

theorem token_verifies_until_expiry:
  assumes "tok = jwt_sign a ''secret'' 3600 t"
  shows "(clock env < t + 3600 \<longrightarrow> fetchUser cfg env (Some tok) = Next a)
       \<and> (t + 3600 < clock env \<longrightarrow>
            fetchUser cfg env (Some tok) =
              Rejected (Response 401 (Errors ''Please authenticate using a valid token''))
            \<and> fetchUser cfg env (Some tok) = fetchUser cfg env (Some (Malformed s)))"
  using assms by (simp add: fetchUser_def jwt_sign_def jwt_verify_def)

theorem token_verifies_until_expiry_witness:
  "fetchUser shop_config (at_time 3599) (Some (jwt_sign 7 ''secret'' 3600 0)) = Next 7
   \<and> fetchUser shop_config (at_time 3601) (Some (jwt_sign 7 ''secret'' 3600 0)) =
       Rejected (Response 401 (Errors ''Please authenticate using a valid token''))
   \<and> fetchUser shop_config (at_time 3601) (Some (jwt_sign 7 ''secret'' 3600 0)) =
       fetchUser shop_config (at_time 3601) (Some (Malformed ''abc''))"
proof -
  have early: "clock (at_time 3599) < 0 + 3600" and late: "0 + 3600 < clock (at_time 3601)"
    by (simp_all add: at_time_def)
  from token_verifies_until_expiry [OF refl, where env = "at_time 3599" and t = 0 and a = 7 and cfg = shop_config] early
  have "fetchUser shop_config (at_time 3599) (Some (jwt_sign 7 ''secret'' 3600 0)) = Next 7"
    by blast
  moreover
  from token_verifies_until_expiry [OF refl, where env = "at_time 3601" and t = 0 and a = 7 and cfg = shop_config
      and s = "''abc''"] late
  have "fetchUser shop_config (at_time 3601) (Some (jwt_sign 7 ''secret'' 3600 0)) =
       Rejected (Response 401 (Errors ''Please authenticate using a valid token''))
   \<and> fetchUser shop_config (at_time 3601) (Some (jwt_sign 7 ''secret'' 3600 0)) =
       fetchUser shop_config (at_time 3601) (Some (Malformed ''abc''))"
    by blast
  ultimately show ?thesis by blast
qed

text \<open>
  C3. The claim: the key of the codec and the key of the token issuer and verifier are,
  in every call, the configuration values loaded at startup. Under a configuration that
  sets both secrets, the signup handler encrypts under the literal \<open>Secret key\<close> and
  signs with the literal \<open>secret\<close>, and the token check refuses a token signed with the
  configured secret.
\<close>

theorem keys_are_literals:
  "jwtSecret shop_config = Some ''jwt-from-env''
   \<and> encryptionSecret shop_config = Some ''enc-from-env''
   \<and> signup shop_config (at_time 0) [] ''Ann'' ''ann@example.org'' ''pw'' =
       ([\<lparr>id_u = 1, name_u = ''Ann'', email = ''ann@example.org'',
          password = AES_Cipher ''pw'' ''Secret key'' 0,
          cartData = seed_cart 0 Map.empty, date_u = 0\<rparr>],
        Response 201 (Success_token (JWT \<lparr>userId = 1, iat = 0, exp = 3600\<rparr> ''secret'')
                        (seed_cart 0 Map.empty)))
   \<and> fetchUser shop_config (at_time 10) (Some (jwt_sign 1 ''jwt-from-env'' 3600 0)) =
       Rejected (Response 401 (Errors ''Please authenticate using a valid token''))
   \<and> fetchUser shop_config (at_time 10) (Some (jwt_sign 1 ''secret'' 3600 0)) = Next 1"
  by (simp add: first_signup)
    (simp add: shop_config_def fetchUser_def jwt_sign_def jwt_verify_def at_time_def)

text \<open>
  C6. For every signup request whose email already belongs to an account, signup fails
  with the conflict response (status 400, \<open>Email is already registered!\<close>) and the
  account store is as it was: no second account is created.
\<close>

theorem signup_email_taken:
  assumes "e \<in> email ` set users"
  shows "signup cfg env users n e p =
           (users, Response 400 (Failure ''Email is already registered!''))"
proof -
  from assms obtain u where "findOne_email users e = Some u"
    using findOne_email_Some_iff by blast
  then show ?thesis by (simp add: signup_def)
qed

theorem signup_email_taken_witness:
  "signup shop_config (at_time 60) [alice] ''Mallory'' ''alice@example.org'' ''other'' =
     ([alice], Response 400 (Failure ''Email is already registered!''))"
proof -
  have "''alice@example.org'' \<in> email ` set [alice]"
    by (simp add: alice_def)
  then show ?thesis by (rule signup_email_taken)
qed

section \<open>The cart a signup seeds\<close>

lemma digit_value:
  assumes "d < 10"
  shows "of_char (digit_char d) = 48 + d"
proof -
  from assms have "d = 0 \<or> d = 1 \<or> d = 2 \<or> d = 3 \<or> d = 4 \<or> d = 5 \<or> d = 6 \<or> d = 7
      \<or> d = 8 \<or> d = 9"
    by arith
  then show ?thesis
    by (elim disjE) (simp_all add: digit_char_def)
qed

text \<open>Reading the numeral back gives the number, so distinct numbers have distinct numerals.\<close>

lemma string_of_nat_value:
  "foldl (\<lambda>a c. 10 * a + (of_char c - 48)) 0 (string_of_nat n) = n"
proof (induction n rule: string_of_nat.induct)
  case (1 n)
  show ?case
  proof (cases "n < 10")
    case True
    then show ?thesis by (simp add: digit_value string_of_nat.simps [of n])
  next
    case False
    have "n mod 10 < 10" by simp
    then have d: "of_char (digit_char (n mod 10)) = 48 + n mod 10"
      by (rule digit_value)
    from False
    have ih: "foldl (\<lambda>a c. 10 * a + (of_char c - 48)) 0 (string_of_nat (n div 10)) = n div 10"
      by (rule 1)
    have "string_of_nat n = string_of_nat (n div 10) @ [digit_char (n mod 10)]"
      using False by (simp add: string_of_nat.simps [of n])
    then show ?thesis using ih d by simp
  qed
qed

lemma string_of_nat_inj: "string_of_nat m = string_of_nat n \<Longrightarrow> m = n"
  by (metis string_of_nat_value)

lemma last_string_of_nat: "last (string_of_nat n) = digit_char (n mod 10)"
  by (simp add: string_of_nat.simps [of n])

lemma digit_char_not_underscore:
  assumes "d < 10"
  shows "digit_char d \<noteq> CHR ''_''"
proof -
  from assms have "d = 0 \<or> d = 1 \<or> d = 2 \<or> d = 3 \<or> d = 4 \<or> d = 5 \<or> d = 6 \<or> d = 7
      \<or> d = 8 \<or> d = 9"
    by arith
  then show ?thesis
    by (elim disjE) (simp_all add: digit_char_def)
qed

text \<open>No numeral is the name \<open>__proto__\<close>, so the assignments of the loop all write.\<close>

lemma string_of_nat_not_proto: "string_of_nat n \<noteq> ''__proto__''"
proof
  assume "string_of_nat n = ''__proto__''"
  then have "last (string_of_nat n) = CHR ''_''" by simp
  then have "digit_char (n mod 10) = CHR ''_''" by (simp only: last_string_of_nat)
  moreover have "n mod 10 < 10" by simp
  ultimately show False using digit_char_not_underscore by blast
qed

lemma set_property_numeral:
  "set_property c (string_of_nat n) v = c(string_of_nat n \<mapsto> v)"
  by (simp add: set_property_def string_of_nat_not_proto)

lemma seed_cart_lookup:
  "seed_cart i c k =
     (if \<exists>j. i \<le> j \<and> j < 100 \<and> k = string_of_nat j then Some (Number 0) else c k)"
proof (induction i c rule: seed_cart.induct)
  case (1 i c)
  show ?case
  proof (cases "i < 100")
    case True
    have eq: "seed_cart i c k = seed_cart (i + 1) (c(string_of_nat i \<mapsto> Number 0)) k"
      using True by (simp add: seed_cart.simps [of i] set_property_numeral)
    have split: "(\<exists>j. i \<le> j \<and> j < 100 \<and> k = string_of_nat j)
          \<longleftrightarrow> k = string_of_nat i \<or> (\<exists>j. i + 1 \<le> j \<and> j < 100 \<and> k = string_of_nat j)"
    proof
      assume "\<exists>j. i \<le> j \<and> j < 100 \<and> k = string_of_nat j"
      then obtain j where j: "i \<le> j" "j < 100" "k = string_of_nat j" by blast
      show "k = string_of_nat i \<or> (\<exists>j. i + 1 \<le> j \<and> j < 100 \<and> k = string_of_nat j)"
      proof (cases "j = i")
        case True
        with j show ?thesis by simp
      next
        case False
        with j have "i + 1 \<le> j" by simp
        with j show ?thesis by blast
      qed
    next
      assume "k = string_of_nat i \<or> (\<exists>j. i + 1 \<le> j \<and> j < 100 \<and> k = string_of_nat j)"
      then show "\<exists>j. i \<le> j \<and> j < 100 \<and> k = string_of_nat j"
      proof
        assume "k = string_of_nat i"
        with True show ?thesis by blast
      next
        assume "\<exists>j. i + 1 \<le> j \<and> j < 100 \<and> k = string_of_nat j"
        then obtain j where "i + 1 \<le> j" "j < 100" "k = string_of_nat j" by blast
        then have "i \<le> j \<and> j < 100 \<and> k = string_of_nat j" by simp
        then show ?thesis by blast
      qed
    qed
    have ih: "seed_cart (i + 1) (c(string_of_nat i \<mapsto> Number 0)) k =
        (if \<exists>j. i + 1 \<le> j \<and> j < 100 \<and> k = string_of_nat j then Some (Number 0)
         else (c(string_of_nat i \<mapsto> Number 0)) k)"
      using 1 [OF True] by (simp only: set_property_numeral)
    show ?thesis
    proof (cases "\<exists>j. i \<le> j \<and> j < 100 \<and> k = string_of_nat j")
      case yes: True
      have "seed_cart (i + 1) (c(string_of_nat i \<mapsto> Number 0)) k = Some (Number 0)"
      proof (cases "k = string_of_nat i")
        case True
        then show ?thesis unfolding ih by simp
      next
        case False
        with yes split have "\<exists>j. i + 1 \<le> j \<and> j < 100 \<and> k = string_of_nat j" by blast
        then show ?thesis unfolding ih by (rule if_P)
      qed
      with eq yes show ?thesis by auto
    next
      case no: False
      with split have "k \<noteq> string_of_nat i"
        and "\<not> (\<exists>j. i + 1 \<le> j \<and> j < 100 \<and> k = string_of_nat j)" by blast+
      then have "seed_cart (i + 1) (c(string_of_nat i \<mapsto> Number 0)) k = c k"
        unfolding ih by auto
      with eq no show ?thesis by auto
    qed
  next
    case False
    then show ?thesis by (auto simp: seed_cart.simps [of i])
  qed
qed

lemma seeded_lookup:
  "seed_cart 0 Map.empty k = (if k \<in> string_of_nat ` {0..<100} then Some (Number 0) else None)"
  by (auto simp: seed_cart_lookup)

lemma seeded_dom: "dom (seed_cart 0 Map.empty) = string_of_nat ` {0..<100}"
  by (auto simp: seeded_lookup dom_def split: if_splits)

lemma seeded_card: "card (dom (seed_cart 0 Map.empty)) = 100"
  by (simp add: seeded_dom card_image inj_on_def string_of_nat_inj)

text \<open>
  C7. A successful signup initialises the cart of the account to exactly 100 entries,
  the keys 0 to 99 (as property names, their decimal numerals) each with count 0, and
  returns it; a login that follows on the resulting store with the same email and
  password, at any time and before any other request, succeeds and returns a cart
  equal to that seeded cart.
\<close>

theorem signup_seeds_cart_and_login_returns_it:
  assumes "signup cfg env users n e p = (users', Response 201 b)"
  shows "b = Success_token (jwt_sign (new_id env) ''secret'' 3600 (clock env))
               (seed_cart 0 Map.empty)
       \<and> (\<exists>u. findOne_email users' e = Some u \<and> cartData u = seed_cart 0 Map.empty)
       \<and> dom (seed_cart 0 Map.empty) = string_of_nat ` {0..<100}
       \<and> card (dom (seed_cart 0 Map.empty)) = 100
       \<and> (\<forall>i<100. seed_cart 0 Map.empty (string_of_nat i) = Some (Number 0))
       \<and> login cfg' env' users' e p =
           Response 200 (Success_token (jwt_sign (new_id env) ''secret'' 3600 (clock env'))
                           (seed_cart 0 Map.empty))"
proof -
  note found = signup_created_found [OF assms]
  have "login cfg' env' users' e p =
           Response 200 (Success_token (jwt_sign (new_id env) ''secret'' 3600 (clock env'))
                           (seed_cart 0 Map.empty))"
    by (simp add: login_def found AES_decrypt_def AES_encrypt_def)
  moreover have "\<forall>i<100. seed_cart 0 Map.empty (string_of_nat i) = Some (Number 0)"
    by (simp add: seeded_lookup)
  ultimately show ?thesis
    using signup_created(3) [OF assms] found seeded_dom seeded_card by simp
qed

theorem signup_seeds_cart_and_login_returns_it_witness:
  "login shop_config (at_time 5)
     (fst (signup shop_config (at_time 0) [] ''Ann'' ''ann@example.org'' ''pw''))
     ''ann@example.org'' ''pw'' =
     Response 200 (Success_token (jwt_sign 1 ''secret'' 3600 5) (seed_cart 0 Map.empty))
   \<and> seed_cart 0 Map.empty ''42'' = Some (Number 0)
   \<and> card (dom (seed_cart 0 Map.empty)) = 100"
proof -
  note inst = signup_seeds_cart_and_login_returns_it
    [OF first_signup, of shop_config "at_time 5"]
  have "(42::nat) < 100" by simp
  with inst have "seed_cart 0 Map.empty (string_of_nat 42) = Some (Number 0)" by blast
  moreover have "string_of_nat 42 = ''42''"
    by (simp add: string_of_nat.simps digit_char_def)
  ultimately have seeded: "seed_cart 0 Map.empty ''42'' = Some (Number 0)" by simp
  from inst have "login shop_config (at_time 5)
      [\<lparr>id_u = 1, name_u = ''Ann'', email = ''ann@example.org'',
        password = AES_Cipher ''pw'' ''Secret key'' 0,
        cartData = seed_cart 0 Map.empty, date_u = 0\<rparr>]
      ''ann@example.org'' ''pw'' =
     Response 200 (Success_token
       (jwt_sign (new_id (at_time 0)) ''secret'' 3600 (clock (at_time 5)))
       (seed_cart 0 Map.empty))"
    by blast
  then have "login shop_config (at_time 5)
     (fst (signup shop_config (at_time 0) [] ''Ann'' ''ann@example.org'' ''pw''))
     ''ann@example.org'' ''pw'' =
     Response 200 (Success_token (jwt_sign 1 ''secret'' 3600 5) (seed_cart 0 Map.empty))"
    unfolding first_signup fst_conv by (simp add: at_time_def)
  moreover from inst have "card (dom (seed_cart 0 Map.empty)) = 100" by blast
  ultimately show ?thesis using seeded by blast
qed

section \<open>The catalog\<close>

lemma addproduct_cases:
  "fst (addproduct env products b) = products
   \<or> (\<exists>p. fst (addproduct env products b) = products @ [p] \<and> id_p p = next_id products)"
  by (simp add: addproduct_def save_product_def Let_def)

lemma addproduct_success:
  assumes "addproduct env products b = (products', Response 200 r)"
  shows "\<exists>p. products' = products @ [p] \<and> id_p p = next_id products"
  using assms
  by (auto simp: addproduct_def save_product_def Let_def split: if_splits)

lemma set_findOneAndDelete: "set (findOneAndDelete i ps) \<subseteq> set ps"
  by (induction ps) auto

text \<open>The ids grow along the collection: removal keeps that, and so does an insertion.\<close>

lemma increasing_findOneAndDelete:
  "sorted_wrt (<) (map id_p ps) \<Longrightarrow> sorted_wrt (<) (map id_p (findOneAndDelete i ps))"
proof (induction ps)
  case Nil
  then show ?case by simp
next
  case (Cons p ps)
  then show ?case
    using set_findOneAndDelete [of i ps] by auto
qed

lemma increasing_last:
  "sorted_wrt (<) (map id_p ps) \<Longrightarrow> q \<in> set ps \<Longrightarrow> id_p q \<le> id_p (last ps)"
proof (induction ps)
  case Nil
  then show ?case by simp
next
  case (Cons p ps)
  show ?case
  proof (cases "ps = []")
    case True
    with Cons.prems show ?thesis by simp
  next
    case False
    then have l: "last ps \<in> set ps" by simp
    from Cons.prems have "\<forall>x\<in>set ps. id_p p < id_p x" and s: "sorted_wrt (<) (map id_p ps)"
      by auto
    with l have "id_p p < id_p (last ps)" by blast
    with Cons.prems(2) Cons.IH [OF s] False show ?thesis by auto
  qed
qed

lemma increasing_next_id:
  "sorted_wrt (<) (map id_p ps) \<Longrightarrow> q \<in> set ps \<Longrightarrow> id_p q < next_id ps"
  using increasing_last [of ps q] by (auto simp: next_id_def)

lemma increasing_serve:
  assumes "sorted_wrt (<) (map id_p ps)"
  shows "sorted_wrt (<) (map id_p (serve ps r))"
proof (cases r)
  case (Addproduct env b)
  from addproduct_cases [of env ps b] show ?thesis
  proof
    assume "fst (addproduct env ps b) = ps"
    with assms Addproduct show ?thesis by simp
  next
    assume "\<exists>p. fst (addproduct env ps b) = ps @ [p] \<and> id_p p = next_id ps"
    then obtain p where p: "fst (addproduct env ps b) = ps @ [p]" "id_p p = next_id ps"
      by blast
    show ?thesis
      unfolding Addproduct serve.simps p(1)
      using assms p(2) increasing_next_id [OF assms]
      by (simp add: sorted_wrt_append)
  qed
next
  case (Removeproduct productId)
  with assms show ?thesis
    by (simp add: removeproduct_def increasing_findOneAndDelete)
qed

lemma increasing_catalog_after: "sorted_wrt (<) (map id_p (catalog_after requests))"
  unfolding catalog_after_def
  by (induction requests rule: rev_induct) (simp_all add: increasing_serve)

lemma increasing_Max:
  assumes "sorted_wrt (<) (map id_p ps)" and "ps \<noteq> []"
  shows "Max (id_p ` set ps) = id_p (last ps)"
proof (rule Max_eqI)
  show "finite (id_p ` set ps)" by simp
  show "\<And>y. y \<in> id_p ` set ps \<Longrightarrow> y \<le> id_p (last ps)"
    using increasing_last [OF assms(1)] by auto
  show "id_p (last ps) \<in> id_p ` set ps"
    using assms(2) by simp
qed

lemma add_after_five_two:
  "addproduct (at_time 0) [item 5, item 2] item_body =
     ([item 5, item 2, item 3], Response 200 (Success_name (Some ''Shirt'')))"
  by (simp add: addproduct_def save_product_def next_id_def item_def item_body_def
      required_string_def at_time_def Let_def)

lemma add_after_two:
  "addproduct (at_time 0) [item 2] item_body =
     ([item 2, item 3], Response 200 (Success_name (Some ''Shirt'')))"
  by (simp add: addproduct_def save_product_def next_id_def item_def item_body_def
      required_string_def at_time_def Let_def)

lemma two_adds_one_removal:
  "catalog_after [Addproduct (at_time 0) item_body, Addproduct (at_time 0) item_body,
                  Removeproduct 1] = [item 2]"
  by (simp add: catalog_after_def addproduct_def save_product_def next_id_def item_def
      item_body_def required_string_def at_time_def removeproduct_def Let_def)

text \<open>
  C8, as amended. A successful product insert appends the new product with the id of the
  last product of the collection plus 1, and with id 1 when the collection is empty. In
  every catalog that a sequence of insert and removal requests leaves, starting from the
  empty collection, that id is strictly greater than every existing id and, when there
  is a product, it is the maximum of the existing ids plus 1.
\<close>

theorem addproduct_assigns_last_plus_one:
  assumes "addproduct env products b = (products', Response 200 r)"
  shows "\<exists>p. products' = products @ [p]
           \<and> id_p p = (if products = [] then 1 else id_p (last products) + 1)
           \<and> (\<forall>requests. products = catalog_after requests \<longrightarrow>
                (\<forall>q\<in>set products. id_p q < id_p p)
                \<and> (products \<noteq> [] \<longrightarrow> id_p p = Max (id_p ` set products) + 1))"
proof -
  from addproduct_success [OF assms] obtain p
    where p: "products' = products @ [p]" "id_p p = next_id products" by blast
  have a: "id_p p = (if products = [] then 1 else id_p (last products) + 1)"
    using p(2) by (simp add: next_id_def)
  have b: "\<forall>requests. products = catalog_after requests \<longrightarrow>
                (\<forall>q\<in>set products. id_p q < id_p p)
                \<and> (products \<noteq> [] \<longrightarrow> id_p p = Max (id_p ` set products) + 1)"
  proof (intro allI impI)
    fix requests
    assume "products = catalog_after requests"
    then have s: "sorted_wrt (<) (map id_p products)"
      by (simp add: increasing_catalog_after)
    have "\<forall>q\<in>set products. id_p q < id_p p"
      using increasing_next_id [OF s] p(2) by simp
    moreover have "products \<noteq> [] \<longrightarrow> id_p p = Max (id_p ` set products) + 1"
      using increasing_Max [OF s] a by simp
    ultimately show "(\<forall>q\<in>set products. id_p q < id_p p)
                \<and> (products \<noteq> [] \<longrightarrow> id_p p = Max (id_p ` set products) + 1)" ..
  qed
  from p(1) a b show ?thesis by blast
qed

theorem addproduct_assigns_last_plus_one_witness:
  "fst (addproduct (at_time 0)
     (catalog_after [Addproduct (at_time 0) item_body, Addproduct (at_time 0) item_body,
                     Removeproduct 1]) item_body) = [item 2, item 3]
   \<and> id_p (item 3) = id_p (last [item 2]) + 1
   \<and> id_p (item 2) < id_p (item 3)
   \<and> id_p (item 3) = Max (id_p ` set [item 2]) + 1"
proof -
  from addproduct_assigns_last_plus_one [OF add_after_two]
  obtain p where p: "[item 2, item 3] = [item 2] @ [p]"
    "id_p p = (if [item 2] = [] then 1 else id_p (last [item 2]) + 1)"
    "\<forall>requests. [item 2] = catalog_after requests \<longrightarrow>
        (\<forall>q\<in>set [item 2]. id_p q < id_p p)
        \<and> ([item 2] \<noteq> [] \<longrightarrow> id_p p = Max (id_p ` set [item 2]) + 1)"
    by blast
  from p(1) have eq: "p = item 3" by simp
  from p(3) two_adds_one_removal [symmetric]
  have "(\<forall>q\<in>set [item 2]. id_p q < id_p p)
        \<and> ([item 2] \<noteq> [] \<longrightarrow> id_p p = Max (id_p ` set [item 2]) + 1)"
    by blast
  with p(2) show ?thesis
    unfolding eq two_adds_one_removal add_after_two by simp
qed

text \<open>
  The claim as it stands fails on a collection whose last product does not carry the
  largest id: after the products with ids 5 and 2 the insert assigns 3, which is neither
  the maximum plus 1 nor greater than 5.
\<close>

theorem addproduct_not_max_counterexample:
  "id_p (last (fst (addproduct (at_time 0) [item 5, item 2] item_body))) = 3
   \<and> Max (id_p ` set [item 5, item 2]) + 1 = 6
   \<and> \<not> id_p (item 5) < id_p (last (fst (addproduct (at_time 0) [item 5, item 2] item_body)))"
  by (simp add: add_after_five_two) (simp add: item_def)

text \<open>
  C10. The product removal reports success (\<open>{success: true}\<close>) also when no product has
  the requested id: the removal then changes nothing, and its response is the response
  of every removal, so it cannot be told from that of removing an existing product.
\<close>

theorem removeproduct_reports_success:
  assumes "productId \<notin> id_p ` set products"
  shows "removeproduct products productId = (products, Response 200 Success)
       \<and> snd (removeproduct products' productId') = snd (removeproduct products productId)"
proof -
  have "findOneAndDelete productId products = products"
    using assms by (induction products) auto
  then show ?thesis by (simp add: removeproduct_def)
qed

theorem removeproduct_reports_success_witness:
  "removeproduct [item 1, item 2] 7 = ([item 1, item 2], Response 200 Success)
   \<and> removeproduct [item 1, item 2] 1 = ([item 2], Response 200 Success)"
proof -
  have "(7::int) \<notin> id_p ` set [item 1, item 2]"
    by (simp add: item_def)
  from removeproduct_reports_success [OF this, of "[item 1, item 2]" 1]
  have "removeproduct [item 1, item 2] 7 = ([item 1, item 2], Response 200 Success)"
    and "snd (removeproduct [item 1, item 2] 1) = Response 200 Success"
    by simp_all
  moreover have "fst (removeproduct [item 1, item 2] 1) = [item 2]"
    by (simp add: removeproduct_def item_def)
  ultimately show ?thesis by (simp add: prod_eq_iff)
qed

end
